theory Spec2Isabelle
  imports Main "HOL-Library.Sublist" "HOL-Library.AList" "HOL-Library.Word"
begin

section \<open>The fofa client: data model\<close>

text \<open>
  A shallow embedding of \<^verbatim>\<open>src/fofa/fofa.go\<close>. Go's \<^verbatim>\<open>[]byte\<close> and
  \<^verbatim>\<open>string\<close> are both byte sequences and are modelled as \<^typ>\<open>string\<close> (a list of
  8-bit characters). A \<^verbatim>\<open>nil\<close> slice that the code only measures or returns is the
  empty list; the variadic \<^verbatim>\<open>args ...[]byte\<close>, whose elements the code compares with
  \<^verbatim>\<open>nil\<close>, is a list of optional byte strings (\<open>None\<close> is \<^verbatim>\<open>nil\<close>).
\<close>

text \<open>The struct \<^verbatim>\<open>result\<close> (lines 43-51); its zero value has every attribute empty.
  The attribute \<^verbatim>\<open>Domain\<close> is written \<open>Domain'\<close>.\<close>

record result =
  Domain' :: string
  Host :: string
  IP :: string
  Port :: string
  Title :: string
  Country :: string
  City :: string

definition zero_result :: result where
  "zero_result = \<lparr>Domain' = [], Host = [], IP = [], Port = [], Title = [], Country = [], City = []\<rparr>"

text \<open>The struct \<^verbatim>\<open>Fofa\<close> (lines 35-39); the embedded HTTP client is part of the
  environment below.\<close>

record Fofa =
  email :: string
  key :: string

text \<open>
  Go error values. The two package-level errors (lines 61-62) are compared by identity and
  are constructors of their own; \<open>errors_New m\<close> is the error that lines 118, 162 and 164
  build from a reply's message; \<open>LibraryError d\<close> is an error made by a library
  (net/http, jsonparser), described by \<open>d\<close>.
\<close>

datatype error =
    errFofaReplyWrongFormat
  | errFofaReplyNoData
  | errors_New string
  | LibraryError string

text \<open>A call either returns or stops with a run-time panic.\<close>

datatype panic = NilDereference | SliceBounds | IndexOutOfRange

datatype 'a outcome = Panic panic | Ret 'a

fun obind :: "'a outcome \<Rightarrow> ('a \<Rightarrow> 'b outcome) \<Rightarrow> 'b outcome" where
  "obind (Panic p) f = Panic p"
| "obind (Ret x) f = f x"

text \<open>The value types of \<^verbatim>\<open>github.com/buger/jsonparser\<close>.\<close>

datatype ValueType = NotExist | String | Number | Object | Array | Boolean | Null | Unknown

text \<open>
  The libraries the client calls are parameters of the model: the HTTP transport
  (\<^verbatim>\<open>ff.Get\<close> followed by \<^verbatim>\<open>ioutil.ReadAll\<close>, whose own error line 116
  overwrites: \<open>Inr buf\<close> is the body as read, \<open>Inl d\<close> the error of \<^verbatim>\<open>ff.Get\<close>),
  \<^verbatim>\<open>base64.StdEncoding.EncodeToString\<close>, \<^verbatim>\<open>strconv.Itoa\<close>, and the three
  jsonparser lookups, each taking the data and the key. \<^verbatim>\<open>jsonparser.Get\<close> returns the
  raw value, its type, an offset and an error (\<open>None\<close> is \<^verbatim>\<open>nil\<close>); the offset,
  which line 167 discards, is left out. A library reports an error by its description
  \<open>d\<close>; the client sees it as \<open>LibraryError d\<close>.
\<close>

type_synonym lib_error = string

record env =
  http_Get :: "string \<Rightarrow> lib_error + string"
  base64_EncodeToString :: "string \<Rightarrow> string"
  strconv_Itoa :: "int \<Rightarrow> string"
  jsonparser_GetString :: "string \<Rightarrow> string \<Rightarrow> lib_error + string"
  jsonparser_Get :: "string \<Rightarrow> string \<Rightarrow> string \<times> ValueType \<times> lib_error option"
  jsonparser_GetInt :: "string \<Rightarrow> string \<Rightarrow> lib_error + int"

section \<open>Byte-string primitives of the Go library\<close>

text \<open>\<^verbatim>\<open>bytes.Index(s, sep)\<close>: the position of the first occurrence of \<open>sep\<close> in
  \<open>s\<close>, \<open>None\<close> for Go's \<open>-1\<close>.\<close>

fun Index :: "string \<Rightarrow> string \<Rightarrow> nat option" where
  "Index [] sep = (if sep = [] then Some 0 else None)"
| "Index (c # cs) sep =
     (if prefix sep (c # cs) then Some 0 else map_option Suc (Index cs sep))"

lemma Index_Some_le: "Index s sep = Some m \<Longrightarrow> m + length sep \<le> length s"
proof (induction s arbitrary: m)
  case Nil
  then show ?case by (simp split: if_splits)
next
  case (Cons c cs)
  show ?case
  proof (cases "prefix sep (c # cs)")
    case True
    then have "length sep \<le> length (c # cs)" by (rule prefix_length_le)
    with True Cons.prems show ?thesis by simp
  next
    case False
    with Cons.prems obtain k where "Index cs sep = Some k" "m = Suc k" by auto
    with Cons.IH show ?thesis by fastforce
  qed
qed

text \<open>
  \<^verbatim>\<open>bytes.Split(s, sep)\<close> (and \<^verbatim>\<open>strings.Split\<close>): cut \<open>s\<close> at every
  occurrence of \<open>sep\<close>, found left to right without overlap; the result always has at
  least one element. Every call site passes a non-empty literal separator; for the empty
  separator Go cuts after each UTF-8 sequence, written here byte by byte.
\<close>

function Split :: "string \<Rightarrow> string \<Rightarrow> string list" where
  "Split s sep =
     (if sep = [] then map (\<lambda>b. [b]) s
      else (case Index s sep of
              None \<Rightarrow> [s]
            | Some m \<Rightarrow> take m s # Split (drop (m + length sep) s) sep))"
  by pat_completeness auto
termination
proof (relation "measure (\<lambda>(s, sep). length s)")
  show "wf (measure (\<lambda>(s, sep). length s))" by simp
next
  fix s sep :: string and m :: nat
  assume "sep \<noteq> []" and "Index s sep = Some m"
  then have "m + length sep \<le> length s" and "0 < length sep"
    by (simp_all add: Index_Some_le)
  then have "length s - (m + length sep) < length s" by arith
  then show "((drop (m + length sep) s, sep), (s, sep)) \<in> measure (\<lambda>(s, sep). length s)"
    by simp
qed

declare Split.simps [simp del]

text \<open>\<^verbatim>\<open>strings.Trim(s, cutset)\<close>: drop the leading and the trailing characters that
  occur in \<open>cutset\<close>.\<close>

definition Trim :: "string \<Rightarrow> string \<Rightarrow> string" where
  "Trim s cutset =
     rev (dropWhile (\<lambda>c. c \<in> set cutset) (rev (dropWhile (\<lambda>c. c \<in> set cutset) s)))"

text \<open>The slice expression \<^verbatim>\<open>s[lo:hi]\<close> on Go's signed \<^verbatim>\<open>int\<close>: it panics unless
  \<open>0 \<le> lo \<le> hi \<le> len(s)\<close> (the bound is the capacity, which is at least the length
  and which no \<open>hi\<close> of this program exceeds the length to reach).\<close>

definition slice_bytes :: "string \<Rightarrow> int \<Rightarrow> int \<Rightarrow> string outcome" where
  "slice_bytes s lo hi =
     (if 0 \<le> lo \<and> lo \<le> hi \<and> hi \<le> int (length s)
      then Ret (take (nat (hi - lo)) (drop (nat lo) s))
      else Panic SliceBounds)"

text \<open>The index expression \<^verbatim>\<open>tmp[a]\<close>.\<close>

definition index :: "'a list \<Rightarrow> nat \<Rightarrow> 'a outcome" where
  "index xs a = (if a < length xs then Ret (xs ! a) else Panic IndexOutOfRange)"

section \<open>QueryAsJSON\<close>

definition defaultAPIUrl :: string where
  "defaultAPIUrl = ''https://fofa.so/api/v1/search/all?''"

definition bytes_of :: "string option \<Rightarrow> string" where
  "bytes_of b = (case b of None \<Rightarrow> [] | Some s \<Rightarrow> s)"

text \<open>Lines 86-106: the query and the field list chosen from \<open>args\<close>, and the URL.
  \<^verbatim>\<open>int(page)\<close> reads the unsigned page number as a signed integer of the same width.\<close>

definition request_url :: "env \<Rightarrow> Fofa \<Rightarrow> 'w::len word \<Rightarrow> string option list \<Rightarrow> string" where
  "request_url e ff page args =
     (let (query, field_list) =
        (if length args = 1 \<or> (length args = 2 \<and> args ! 1 = None)
           then (args ! 0, ''domain,host,ip,port,title,country,city'')
         else if length args = 2
           then (args ! 0, bytes_of (args ! 1))
         else (None, ''domain,host,ip,port,title,country,city''));
        q = base64_EncodeToString e (bytes_of query)
      in concat [defaultAPIUrl,
           ''email='', email ff,
           ''&key='', key ff,
           ''&qbase64='', q,
           ''&fields='', field_list,
           ''&page='', strconv_Itoa e (sint page)])"

text \<open>Lines 108-122; what the function prints and logs is not modelled. After a
  successful request the error is non-nil exactly when \<^verbatim>\<open>GetString\<close> found a string
  under \<^verbatim>\<open>errmsg\<close>, and the body is returned in both cases.\<close>

definition QueryAsJSON ::
  "env \<Rightarrow> Fofa \<Rightarrow> 'w::len word \<Rightarrow> string option list \<Rightarrow> string \<times> error option" where
  "QueryAsJSON e ff page args =
     (case http_Get e (request_url e ff page args) of
        Inl d \<Rightarrow> ([], Some (LibraryError d))
      | Inr buf \<Rightarrow>
          (case jsonparser_GetString e buf ''errmsg'' of
             Inr errmsg \<Rightarrow> (buf, Some (errors_New errmsg))
           | Inl err \<Rightarrow> (buf, None)))"

section \<open>QueryAsArray\<close>

text \<open>Lines 142-157: the Go map \<^verbatim>\<open>mapFields\<close> as an association list with distinct
  keys (its length is \<^verbatim>\<open>len(mapFields)\<close>); a later assignment to a key replaces the
  earlier one.\<close>

fun index_fields :: "(string \<times> nat) list \<Rightarrow> nat \<Rightarrow> string list \<Rightarrow> (string \<times> nat) list" where
  "index_fields m i [] = m"
| "index_fields m i (field # rest) =
     index_fields (AList.update (Trim field '' '') i m) (Suc i) rest"

definition default_mapFields :: "(string \<times> nat) list" where
  "default_mapFields =
     AList.update ''city'' 6 (AList.update ''country'' 5 (AList.update ''title'' 4
       (AList.update ''port'' 3 (AList.update ''ip'' 2 (AList.update ''host'' 1
         (AList.update ''domain'' 0 []))))))"

definition build_mapFields :: "string option list \<Rightarrow> (string \<times> nat) list" where
  "build_mapFields args =
     (if length args > 1 \<and> args ! 1 \<noteq> None
      then index_fields [] 0 (Split (bytes_of (args ! 1)) '','')
      else default_mapFields)"

text \<open>Lines 186-190: one byte segment per row.\<close>

definition split_rows :: "(string \<times> nat) list \<Rightarrow> string \<Rightarrow> string list outcome" where
  "split_rows mapFields results =
     (if length mapFields > 1
      then obind (slice_bytes results 2 (int (length results) - 2)) (\<lambda>s. Ret (Split s ''],[''))
      else obind (slice_bytes results 1 (int (length results) - 1)) (\<lambda>s. Ret (Split s '','')))"

text \<open>The expression \<^verbatim>\<open>tmp[a][1 : len(tmp[a])-1]\<close>.\<close>

definition column :: "string list \<Rightarrow> nat \<Rightarrow> string outcome" where
  "column tmp a = obind (index tmp a) (\<lambda>c. slice_bytes c 1 (int (length c) - 1))"

text \<open>One of the seven statements \<^verbatim>\<open>if a, ok := mapFields[name]; ok { ... }\<close>.\<close>

definition assign ::
  "(string \<times> nat) list \<Rightarrow> string list \<Rightarrow> string \<Rightarrow> (string \<Rightarrow> result \<Rightarrow> result) \<Rightarrow> result
     \<Rightarrow> result outcome" where
  "assign mapFields tmp name upd r =
     (case map_of mapFields name of
        None \<Rightarrow> Ret r
      | Some a \<Rightarrow> obind (column tmp a) (\<lambda>s. Ret (upd s r)))"

text \<open>Lines 193-215: the loop body, on the zero record \<^verbatim>\<open>queryArray[i]\<close>.\<close>

definition parse_row :: "(string \<times> nat) list \<Rightarrow> string \<Rightarrow> result outcome" where
  "parse_row mapFields v =
     (let tmp = Split v '','' in
      obind (assign mapFields tmp ''domain'' (\<lambda>s r. r\<lparr>Domain' := s\<rparr>) zero_result) (\<lambda>r.
      obind (assign mapFields tmp ''host'' (\<lambda>s r. r\<lparr>Host := s\<rparr>) r) (\<lambda>r.
      obind (assign mapFields tmp ''ip'' (\<lambda>s r. r\<lparr>IP := s\<rparr>) r) (\<lambda>r.
      obind (assign mapFields tmp ''port'' (\<lambda>s r. r\<lparr>Port := s\<rparr>) r) (\<lambda>r.
      obind (assign mapFields tmp ''title'' (\<lambda>s r. r\<lparr>Title := s\<rparr>) r) (\<lambda>r.
      obind (assign mapFields tmp ''country'' (\<lambda>s r. r\<lparr>Country := s\<rparr>) r) (\<lambda>r.
      assign mapFields tmp ''city'' (\<lambda>s r. r\<lparr>City := s\<rparr>) r)))))))"

text \<open>Lines 191-216: the loop over \<^verbatim>\<open>resultArray\<close>, in order; a panic in a row ends
  the call.\<close>

fun parse_rows :: "(string \<times> nat) list \<Rightarrow> string list \<Rightarrow> result list outcome" where
  "parse_rows mapFields [] = Ret []"
| "parse_rows mapFields (v # vs) =
     obind (parse_row mapFields v) (\<lambda>r.
     obind (parse_rows mapFields vs) (\<lambda>rs. Ret (r # rs)))"

text \<open>Lines 186-216.\<close>

definition decode :: "(string \<times> nat) list \<Rightarrow> string \<Rightarrow> result list outcome" where
  "decode mapFields results = obind (split_rows mapFields results) (parse_rows mapFields)"

text \<open>
  Lines 129-217. Logging is not modelled, except that line 171 evaluates
  \<^verbatim>\<open>err.Error()\<close> for its argument: when the value under \<^verbatim>\<open>results\<close> is not an
  array and \<^verbatim>\<open>err\<close> is \<^verbatim>\<open>nil\<close>, the call panics before anything is returned.
\<close>

definition QueryAsArray ::
  "env \<Rightarrow> Fofa \<Rightarrow> 'w::len word \<Rightarrow> string option list \<Rightarrow> (result list \<times> error option) outcome" where
  "QueryAsArray e ff page args =
     (case QueryAsJSON e ff page args of
        (data, Some err) \<Rightarrow> Ret ([], Some err)
      | (data, None) \<Rightarrow>
          (let mapFields = build_mapFields args in
           case jsonparser_GetString e data ''errmsg'' of
             Inr errmsg \<Rightarrow> Ret ([], Some (errors_New errmsg))
           | Inl _ \<Rightarrow>
               (case jsonparser_Get e data ''results'' of
                  (results, dataType, err) \<Rightarrow>
                    if dataType \<noteq> Array then
                      (case err of
                         None \<Rightarrow> Panic NilDereference
                       | Some d \<Rightarrow> Ret ([], Some (LibraryError d)))
                    else
                      (case err of
                         Some d \<Rightarrow> Ret ([], Some (LibraryError d))
                       | None \<Rightarrow>
                           (case jsonparser_GetInt e data ''size'' of
                              Inl _ \<Rightarrow> Ret ([], Some errFofaReplyWrongFormat)
                            | Inr size' \<Rightarrow>
                                if size' < 1 then Ret ([], Some errFofaReplyNoData)
                                else obind (decode mapFields results)
                                       (\<lambda>queryArray. Ret (queryArray, None)))))))"

section \<open>Vocabulary of the properties\<close>

text \<open>The seven field names the loop body recognises, and the attribute each one is
  assigned to (lines 195-215, and the struct's tags).\<close>

definition field_names :: "string list" where
  "field_names = [''domain'', ''host'', ''ip'', ''port'', ''title'', ''country'', ''city'']"

definition attr :: "string \<Rightarrow> result \<Rightarrow> string" where
  "attr name r =
     (if name = ''domain'' then Domain' r
      else if name = ''host'' then Host r
      else if name = ''ip'' then IP r
      else if name = ''port'' then Port r
      else if name = ''title'' then Title r
      else if name = ''country'' then Country r
      else if name = ''city'' then City r
      else [])"

text \<open>A reply reaches the splitting step (line 186) with the raw array \<open>results\<close>: the
  transport delivered a body, no string was found under \<^verbatim>\<open>errmsg\<close>, the value under
  \<^verbatim>\<open>results\<close> is an array read without error, and \<^verbatim>\<open>size\<close> is an integer of at
  least 1.\<close>

definition reaches_split ::
  "env \<Rightarrow> Fofa \<Rightarrow> 'w::len word \<Rightarrow> string option list \<Rightarrow> string \<Rightarrow> bool" where
  "reaches_split e ff page args results =
     (case http_Get e (request_url e ff page args) of
        Inl d \<Rightarrow> False
      | Inr data \<Rightarrow>
          isl (jsonparser_GetString e data ''errmsg'') \<and>
          (case jsonparser_Get e data ''results'' of
             (raw, dataType, err) \<Rightarrow> raw = results \<and> dataType = Array \<and> err = None) \<and>
          (case jsonparser_GetInt e data ''size'' of
             Inl d \<Rightarrow> False
           | Inr size' \<Rightarrow> 1 \<le> size'))"

text \<open>
  The wire format that lines 186-216 take apart, which is the reply shape of the service
  written without white space: a value is its text between two quote characters (line 196
  removes one byte at each end of a column), a row is its values joined by commas, the
  results of a query for several fields are the bracketed rows joined by commas between
  brackets (line 187 removes two bytes at each end and cuts at \<^verbatim>\<open>],[\<close>), and the
  results of a query for one field are the values themselves, joined by commas between
  brackets (line 189 removes one byte at each end and cuts at commas).
\<close>

definition quote :: "string \<Rightarrow> string" where
  "quote v = CHR 0x22 # v @ [CHR 0x22]"

fun join :: "string \<Rightarrow> string list \<Rightarrow> string" where
  "join sep [] = []"
| "join sep [x] = x"
| "join sep (x # y # ys) = x @ sep @ join sep (y # ys)"

definition encode_row :: "string list \<Rightarrow> string" where
  "encode_row row = join '','' (map quote row)"

definition encode_results :: "string list list \<Rightarrow> string" where
  "encode_results rows = ''['' @ join '','' (map (\<lambda>row. ''['' @ encode_row row @ '']'') rows) @ '']''"

definition encode_flat :: "string list \<Rightarrow> string" where
  "encode_flat vals = ''['' @ join '','' (map quote vals) @ '']''"

text \<open>A stand-in for the service and the libraries, for concrete runs: every URL is
  answered with \<open>body\<close>, and the three lookups answer \<open>em\<close>, \<open>rs\<close> and \<open>sz\<close> for
  the keys \<^verbatim>\<open>errmsg\<close>, \<^verbatim>\<open>results\<close> and \<^verbatim>\<open>size\<close> of that body;
  \<open>not_found\<close> is what jsonparser reports for a key the body does not have.\<close>

definition not_found :: lib_error where
  "not_found = ''Key path not found''"

definition service_double ::
  "string \<Rightarrow> lib_error + string \<Rightarrow> string \<times> ValueType \<times> lib_error option
     \<Rightarrow> lib_error + int \<Rightarrow> env" where
  "service_double body em rs sz =
     \<lparr>http_Get = (\<lambda>url. Inr body),
      base64_EncodeToString = (\<lambda>q. q),
      strconv_Itoa = (\<lambda>n. []),
      jsonparser_GetString =
        (\<lambda>data k. if data = body \<and> k = ''errmsg'' then em else Inl not_found),
      jsonparser_Get =
        (\<lambda>data k. if data = body \<and> k = ''results'' then rs else ([], NotExist, Some not_found)),
      jsonparser_GetInt =
        (\<lambda>data k. if data = body \<and> k = ''size'' then sz else Inl not_found)\<rparr>"

text \<open>The caller of the concrete runs.\<close>

definition client :: Fofa where
  "client = \<lparr>email = ''user@example.com'', key = ''k3y''\<rparr>"

text \<open>What one statement of the loop body contributes: the empty string for a name the
  mapping does not have, the stripped column for a name it has.\<close>

definition field_value :: "(string \<times> nat) list \<Rightarrow> string list \<Rightarrow> string \<Rightarrow> string outcome" where
  "field_value mapFields tmp name =
     (case map_of mapFields name of None \<Rightarrow> Ret [] | Some a \<Rightarrow> column tmp a)"

text \<open>No closing bracket is directly followed by a comma.\<close>

fun no_close_comma :: "string \<Rightarrow> bool" where
  "no_close_comma [] = True"
| "no_close_comma [x] = True"
| "no_close_comma (x # y # zs) =
     ((x \<noteq> CHR '']'' \<or> y \<noteq> CHR '','') \<and> no_close_comma (y # zs))"


text \<open>The record that a row of seven values stands for under the default fields.\<close>

definition record_of :: "string list \<Rightarrow> result" where
  "record_of row =
     \<lparr>Domain' = row ! 0, Host = row ! 1, IP = row ! 2, Port = row ! 3, Title = row ! 4,
      Country = row ! 5, City = row ! 6\<rparr>"

text \<open>The record that a row of values stands for under a mapping: the attribute of a
  mapped name is the value at its index, every other attribute is empty.\<close>

definition cell :: "(string \<times> nat) list \<Rightarrow> string list \<Rightarrow> string \<Rightarrow> string" where
  "cell mapFields row name = (case map_of mapFields name of None \<Rightarrow> [] | Some a \<Rightarrow> row ! a)"

definition expected_record :: "(string \<times> nat) list \<Rightarrow> string list \<Rightarrow> result" where
  "expected_record mapFields row =
     \<lparr>Domain' = cell mapFields row ''domain'', Host = cell mapFields row ''host'',
      IP = cell mapFields row ''ip'', Port = cell mapFields row ''port'',
      Title = cell mapFields row ''title'', Country = cell mapFields row ''country'',
      City = cell mapFields row ''city''\<rparr>"

section \<open>Properties of the primitives\<close>

lemma obind_Ret_iff: "(obind m f = Ret y) = (\<exists>x. m = Ret x \<and> f x = Ret y)"
  by (cases m) simp_all

lemma QueryAsArray_decode:
  assumes "reaches_split e ff page args results"
  shows "QueryAsArray e ff page args =
           obind (decode (build_mapFields args) results) (\<lambda>queryArray. Ret (queryArray, None))"
  using assms
  by (auto simp: reaches_split_def QueryAsArray_def QueryAsJSON_def isl_def
           split: sum.splits prod.splits option.splits)

lemma obind_assoc: "obind (obind m f) g = obind m (\<lambda>x. obind (f x) g)"
  by (cases m) simp_all

lemma strip_slice:
  "slice_bytes c 1 (int (length c) - 1) =
     (if 2 \<le> length c then Ret (butlast (tl c)) else Panic SliceBounds)"
proof (cases "2 \<le> length c")
  case True
  then have "nat (int (length c) - 1 - 1) = length c - 2" by simp
  moreover have "butlast (tl c) = take (length c - 2) (drop 1 c)"
    by (simp add: butlast_conv_take drop_Suc numeral_2_eq_2)
  ultimately show ?thesis using True by (simp add: slice_bytes_def)
next
  case False
  then show ?thesis by (simp add: slice_bytes_def)
qed

lemma column_eq:
  "column tmp a =
     (if a < length tmp
      then (if 2 \<le> length (tmp ! a) then Ret (butlast (tl (tmp ! a))) else Panic SliceBounds)
      else Panic IndexOutOfRange)"
  by (simp add: column_def index_def strip_slice)

lemma column_Ret_iff:
  "(column tmp a = Ret s) = (a < length tmp \<and> 2 \<le> length (tmp ! a) \<and> s = butlast (tl (tmp ! a)))"
  by (auto simp: column_eq)

lemma parse_row_fields:
  "parse_row mf v =
     (let tmp = Split v '','' in
      obind (field_value mf tmp ''domain'') (\<lambda>d.
      obind (field_value mf tmp ''host'') (\<lambda>h.
      obind (field_value mf tmp ''ip'') (\<lambda>i.
      obind (field_value mf tmp ''port'') (\<lambda>p.
      obind (field_value mf tmp ''title'') (\<lambda>t.
      obind (field_value mf tmp ''country'') (\<lambda>c.
      obind (field_value mf tmp ''city'') (\<lambda>y.
      Ret \<lparr>Domain' = d, Host = h, IP = i, Port = p, Title = t, Country = c, City = y\<rparr>))))))))"
  unfolding parse_row_def assign_def field_value_def zero_result_def Let_def
  by (simp add: obind_assoc split: option.split)

lemma field_value_Ret_iff:
  "(field_value mf tmp name = Ret s) =
     (case map_of mf name of
        None \<Rightarrow> s = []
      | Some a \<Rightarrow> a < length tmp \<and> 2 \<le> length (tmp ! a) \<and> s = butlast (tl (tmp ! a)))"
  by (auto simp: field_value_def column_Ret_iff split: option.split)

lemma parse_row_Ret_iff:
  "(parse_row mf v = Ret r) =
     (field_value mf (Split v '','') ''domain'' = Ret (Domain' r) \<and>
      field_value mf (Split v '','') ''host'' = Ret (Host r) \<and>
      field_value mf (Split v '','') ''ip'' = Ret (IP r) \<and>
      field_value mf (Split v '','') ''port'' = Ret (Port r) \<and>
      field_value mf (Split v '','') ''title'' = Ret (Title r) \<and>
      field_value mf (Split v '','') ''country'' = Ret (Country r) \<and>
      field_value mf (Split v '','') ''city'' = Ret (City r))"
  by (cases r) (auto simp: parse_row_fields obind_Ret_iff Let_def)

lemma parse_row_attr:
  "(parse_row mf v = Ret r) =
     (\<forall>name\<in>set field_names. field_value mf (Split v '','') name = Ret (attr name r))"
  by (simp add: parse_row_Ret_iff field_names_def attr_def)

lemma parse_rows_Ret_iff:
  "(parse_rows mf vs = Ret rs) = list_all2 (\<lambda>v r. parse_row mf v = Ret r) vs rs"
proof (induction vs arbitrary: rs)
  case Nil
  then show ?case by auto
next
  case (Cons v vs)
  then show ?case by (cases rs) (auto simp: obind_Ret_iff)
qed

lemma parse_rows_Panic:
  "v \<in> set vs \<Longrightarrow> parse_row mf v = Panic p \<Longrightarrow> \<exists>p'. parse_rows mf vs = Panic p'"
proof (induction vs)
  case Nil
  then show ?case by simp
next
  case (Cons w ws)
  show ?case
  proof (cases "parse_row mf w")
    case (Panic q)
    then show ?thesis by simp
  next
    case (Ret r)
    with Cons obtain p' where "parse_rows mf ws = Panic p'" by auto
    with Ret show ?thesis by simp
  qed
qed

lemma Index_single: "c \<notin> set r \<Longrightarrow> Index (r @ c # rest) [c] = Some (length r)"
  by (induction r) auto

lemma Index_single_None: "c \<notin> set r \<Longrightarrow> Index r [c] = None"
  by (induction r) auto

lemma Split_last_single: "c \<notin> set r \<Longrightarrow> Split r [c] = [r]"
  by (subst Split.simps) (simp add: Index_single_None)

lemma Split_cons_single:
  "c \<notin> set r \<Longrightarrow> Split (r @ c # rest) [c] = r # Split rest [c]"
  by (subst Split.simps) (simp add: Index_single)

lemma Split_join_single:
  "xs \<noteq> [] \<Longrightarrow> \<forall>x\<in>set xs. c \<notin> set x \<Longrightarrow> Split (join [c] xs) [c] = xs"
proof (induction "[c]" xs rule: join.induct)
  case 1
  then show ?case by simp
next
  case (2 x)
  then show ?case by (simp add: Split_last_single)
next
  case (3 x y ys)
  then show ?case by (simp add: Split_cons_single)
qed

lemma Index_rows: "no_close_comma r \<Longrightarrow> Index (r @ ''],['' @ rest) ''],['' = Some (length r)"
  by (induction r rule: no_close_comma.induct) auto

lemma Index_rows_None: "no_close_comma r \<Longrightarrow> Index r ''],['' = None"
  by (induction r rule: no_close_comma.induct) auto

lemma Split_last_row: "no_close_comma r \<Longrightarrow> Split r ''],['' = [r]"
  by (subst Split.simps) (simp add: Index_rows_None)

lemma Split_cons_row:
  "no_close_comma r \<Longrightarrow> Split (r @ ''],['' @ rest) ''],['' = r # Split rest ''],[''"
  using Index_rows [of r rest] by (subst Split.simps) simp

lemma Split_join_rows:
  "xs \<noteq> [] \<Longrightarrow> \<forall>x\<in>set xs. no_close_comma x \<Longrightarrow> Split (join ''],['' xs) ''],['' = xs"
proof (induction "''],[''" xs rule: join.induct)
  case 1
  then show ?case by simp
next
  case (2 x)
  then show ?case by (simp add: Split_last_row)
next
  case (3 x y ys)
  then show ?case using Split_cons_row [of x "join ''],['' (y # ys)"] by simp
qed

lemma comma_free_no_close_comma: "CHR '','' \<notin> set a \<Longrightarrow> no_close_comma a"
  by (induction a rule: no_close_comma.induct) auto

lemma no_close_comma_Cons_comma: "no_close_comma b \<Longrightarrow> no_close_comma (CHR '','' # b)"
  by (cases b) auto

lemma no_close_comma_append:
  "CHR '','' \<notin> set a \<Longrightarrow> a \<noteq> [] \<Longrightarrow> last a \<noteq> CHR '']'' \<Longrightarrow> no_close_comma b
     \<Longrightarrow> no_close_comma (a @ CHR '','' # b)"
proof (induction a rule: no_close_comma.induct)
  case 1
  then show ?case by simp
next
  case (2 x)
  then show ?case by (simp add: no_close_comma_Cons_comma)
next
  case (3 x y zs)
  then show ?case by auto
qed

lemma quote_comma_free: "CHR '','' \<notin> set v \<Longrightarrow> CHR '','' \<notin> set (quote v)"
  by (simp add: quote_def)

lemma strip_quote: "butlast (tl (quote v)) = v"
  by (simp add: quote_def)

lemma length_quote: "2 \<le> length (quote v)"
  by (simp add: quote_def)

lemma Split_encode_row:
  assumes "row \<noteq> []" and "\<forall>v\<in>set row. CHR '','' \<notin> set v"
  shows "Split (encode_row row) '','' = map quote row"
  unfolding encode_row_def
  using assms by (intro Split_join_single) (auto simp: quote_comma_free)

lemma join_Cons: "join sep (x # xs) = (if xs = [] then x else x @ sep @ join sep xs)"
  by (cases xs) simp_all

lemma no_close_comma_join_quote:
  "\<forall>v\<in>set row. CHR '','' \<notin> set v \<Longrightarrow> no_close_comma (join '','' (map quote row))"
proof (induction row)
  case Nil
  then show ?case by simp
next
  case (Cons v row)
  show ?case
  proof (cases "row = []")
    case True
    with Cons.prems show ?thesis by (simp add: comma_free_no_close_comma quote_comma_free)
  next
    case False
    have "CHR '','' \<notin> set (quote v)" "quote v \<noteq> []" "last (quote v) \<noteq> CHR '']''"
      using Cons.prems by (simp_all add: quote_def)
    moreover have "no_close_comma (join '','' (map quote row))"
      using Cons by simp
    ultimately have "no_close_comma (quote v @ CHR '','' # join '','' (map quote row))"
      by (rule no_close_comma_append)
    with False show ?thesis by (simp add: join_Cons)
  qed
qed

lemma encode_results_rows:
  "rows \<noteq> [] \<Longrightarrow> encode_results rows = ''[['' @ join ''],['' (map encode_row rows) @ '']]''"
proof -
  have "xs \<noteq> [] \<Longrightarrow> join '','' (map (\<lambda>r. ''['' @ r @ '']'') xs) = ''['' @ join ''],['' xs @ '']''"
    for xs :: "string list"
    by (induction "''],[''" xs rule: join.induct) simp_all
  from this [of "map encode_row rows"] show "rows \<noteq> [] \<Longrightarrow> ?thesis"
    by (simp add: encode_results_def comp_def)
qed

lemma slice_strip2: "slice_bytes (a # b # s @ [c, d]) 2 (int (length (a # b # s @ [c, d])) - 2) = Ret s"
  by (simp add: slice_bytes_def)

lemma slice_strip1: "slice_bytes (a # s @ [d]) 1 (int (length (a # s @ [d])) - 1) = Ret s"
  by (simp add: slice_bytes_def)

lemma split_rows_encode_results:
  assumes "1 < length mf" and "rows \<noteq> []"
    and "\<forall>row\<in>set rows. \<forall>v\<in>set row. CHR '','' \<notin> set v"
  shows "split_rows mf (encode_results rows) = Ret (map encode_row rows)"
proof -
  let ?body = "join ''],['' (map encode_row rows)"
  have enc: "encode_results rows = CHR ''['' # CHR ''['' # ?body @ [CHR '']'', CHR '']'']"
    using assms(2) by (simp add: encode_results_rows)
  have "Split ?body ''],['' = map encode_row rows"
    using assms(2,3) by (intro Split_join_rows) (auto simp: encode_row_def no_close_comma_join_quote)
  then show ?thesis
    using assms(1) unfolding split_rows_def enc by (simp only: slice_strip2 if_True obind.simps)
qed

lemma split_rows_encode_flat:
  assumes "\<not> 1 < length mf" and "vals \<noteq> []" and "\<forall>v\<in>set vals. CHR '','' \<notin> set v"
  shows "split_rows mf (encode_flat vals) = Ret (map quote vals)"
proof -
  let ?body = "join '','' (map quote vals)"
  have enc: "encode_flat vals = CHR ''['' # ?body @ [CHR '']'']"
    by (simp add: encode_flat_def)
  have "Split ?body '','' = map quote vals"
    using assms(2,3) by (intro Split_join_single) (auto simp: quote_comma_free)
  then show ?thesis
    using assms(1) unfolding split_rows_def enc by (simp only: slice_strip1 if_False obind.simps)
qed

section \<open>Properties of the mapping and of a row\<close>

lemma default_mapFields_eq:
  "default_mapFields =
     [(''domain'', 0), (''host'', 1), (''ip'', 2), (''port'', 3), (''title'', 4),
      (''country'', 5), (''city'', 6)]"
  by (simp add: default_mapFields_def)



lemma index_fields_bound:
  "map_of (index_fields m i fs) name = Some a \<Longrightarrow>
     map_of m name = Some a \<or> (i \<le> a \<and> a < i + length fs)"
proof (induction fs arbitrary: m i)
  case Nil
  then show ?case by simp
next
  case (Cons f rest)
  from Cons.IH [OF Cons.prems [simplified]]
  show ?case by (auto simp: update_conv' split: if_splits)
qed

lemma column_quote: "a < length row \<Longrightarrow> column (map quote row) a = Ret (row ! a)"
  by (simp add: column_eq strip_quote length_quote)

lemma parse_row_value:
  assumes "parse_row mf v = Ret r" and "name \<in> set field_names" and "map_of mf name = Some a"
  shows "a < length (Split v '','') \<and> 2 \<le> length (Split v '','' ! a) \<and>
         attr name r = butlast (tl (Split v '','' ! a))"
proof -
  from assms(1,2) have "field_value mf (Split v '','') name = Ret (attr name r)"
    by (simp add: parse_row_attr)
  with assms(3) show ?thesis by (simp add: field_value_Ret_iff)
qed

lemma parse_row_unmapped:
  assumes "parse_row mf v = Ret r" and "name \<in> set field_names" and "map_of mf name = None"
  shows "attr name r = []"
proof -
  from assms(1,2) have "field_value mf (Split v '','') name = Ret (attr name r)"
    by (simp add: parse_row_attr)
  with assms(3) show ?thesis by (simp add: field_value_Ret_iff)
qed

lemma parse_row_short:
  assumes "name \<in> set field_names" and "map_of mf name = Some a"
    and "length (Split v '','') \<le> a"
  shows "\<exists>p. parse_row mf v = Panic p"
proof (cases "parse_row mf v")
  case (Panic p)
  then show ?thesis by simp
next
  case (Ret r)
  from parse_row_value [OF Ret assms(1,2)] assms(3) show ?thesis by simp
qed

lemma QueryAsArray_rows:
  assumes "reaches_split e ff page args results"
    and "split_rows (build_mapFields args) results = Ret rows"
  shows "QueryAsArray e ff page args =
           obind (parse_rows (build_mapFields args) rows) (\<lambda>queryArray. Ret (queryArray, None))"
  using assms by (simp add: QueryAsArray_decode decode_def)

section \<open>Rows in the wire format\<close>

lemma attr_expected_record:
  "name \<in> set field_names \<Longrightarrow> attr name (expected_record mf row) = cell mf row name"
  by (auto simp: field_names_def attr_def expected_record_def)

lemma field_value_quoted:
  assumes "\<forall>a. map_of mf name = Some a \<longrightarrow> a < length row"
  shows "field_value mf (map quote row) name = Ret (cell mf row name)"
  using assms by (simp add: field_value_def cell_def column_quote split: option.split)

lemma parse_row_quoted:
  assumes "row \<noteq> []" and "\<forall>v\<in>set row. CHR '','' \<notin> set v"
    and "\<forall>name a. map_of mf name = Some a \<longrightarrow> a < length row"
  shows "parse_row mf (encode_row row) = Ret (expected_record mf row)"
proof -
  have "field_value mf (map quote row) name = Ret (cell mf row name)" for name
    using assms(3) by (intro field_value_quoted) simp
  then show ?thesis
    by (simp add: parse_row_Ret_iff Split_encode_row [OF assms(1,2)] expected_record_def)
qed

lemma parse_rows_quoted:
  assumes "\<forall>row\<in>set rows. row \<noteq> [] \<and> (\<forall>v\<in>set row. CHR '','' \<notin> set v) \<and>
             (\<forall>name a. map_of mf name = Some a \<longrightarrow> a < length row)"
  shows "parse_rows mf (map encode_row rows) = Ret (map (expected_record mf) rows)"
  using assms
  by (simp add: parse_rows_Ret_iff list_all2_map1 list_all2_map2 list_all2_same parse_row_quoted)

lemma expected_record_default:
  "length row = 7 \<Longrightarrow> expected_record default_mapFields row = record_of row"
  by (simp add: expected_record_def record_of_def cell_def default_mapFields_eq)

lemma single_mapFields:
  "name \<in> set field_names \<Longrightarrow> build_mapFields [q, Some name] = [(name, 0)]"
  by (auto simp: field_names_def build_mapFields_def bytes_of_def Split.simps Trim_def)

lemma encode_row_single: "encode_row [v] = quote v"
  by (simp add: encode_row_def)

section \<open>Concrete runs\<close>

text \<open>The definitions a concrete run unfolds.\<close>

lemmas run_defs = QueryAsArray_def QueryAsJSON_def service_double_def build_mapFields_def
  default_mapFields_def decode_def split_rows_def slice_bytes_def Split.simps parse_row_def
  assign_def column_def index_def zero_result_def bytes_of_def Trim_def reaches_split_def

section \<open>QueryAsJSON: the body comes back with the error\<close>

text \<open>
  C10. Whenever the transport delivers a body in which jsonparser finds a string under
  \<^verbatim>\<open>errmsg\<close>, QueryAsJSON returns that whole body together with the non-nil error
  built from the message. The message is arbitrary, so the empty string is included: the
  concrete run below is the reply \<^verbatim>\<open>{"error":true,"errmsg":""}\<close>, which comes back
  with an error whose message is empty.
\<close>

theorem QueryAsJSON_body_with_error:
  assumes "http_Get e (request_url e ff page args) = Inr buf"
    and "jsonparser_GetString e buf ''errmsg'' = Inr errmsg"
  shows "QueryAsJSON e ff page args = (buf, Some (errors_New errmsg))"
  using assms by (simp add: QueryAsJSON_def)

theorem QueryAsJSON_body_with_error_witness:
  \<open>QueryAsJSON
     (service_double ''{"error":true,"errmsg":""}'' (Inr []) ([], NotExist, Some not_found)
        (Inl not_found))
     client (1 :: 64 word) [Some ''ip="1.1.1.1"'']
   = (''{"error":true,"errmsg":""}'', Some (errors_New []))\<close>
  by (rule QueryAsJSON_body_with_error) (simp_all add: service_double_def)

section \<open>QueryAsArray: the checks before the split\<close>

text \<open>
  C2, as the claim states it, fails: it lets only a non-empty message raise the error. The
  reply \<^verbatim>\<open>{"errmsg":"","size":1,"results":[["a.com","1.1.1.1"]]}\<close> carries an empty
  message, jsonparser finds the string, and QueryAsArray returns the error built from it
  and no records.
\<close>

theorem empty_errmsg_counterexample:
  \<open>QueryAsArray
     (service_double ''{"errmsg":"","size":1,"results":[["a.com","1.1.1.1"]]}'' (Inr [])
        (''[["a.com","1.1.1.1"]]'', Array, None) (Inr 1))
     client (1 :: 64 word) [Some ''domain="a.com"'', Some ''domain,ip'']
   = Ret ([], Some (errors_New []))\<close>
  by (simp add: QueryAsArray_def QueryAsJSON_def service_double_def)

text \<open>
  C2, amended. For every body the transport delivers, QueryAsArray returns the error built
  from a message \<open>m\<close> exactly when jsonparser finds the string \<open>m\<close>, empty or not, under
  \<^verbatim>\<open>errmsg\<close>, and then it returns no records; a body without such a string never
  yields that error.
\<close>

theorem remote_error_iff_errmsg_string:
  assumes "http_Get e (request_url e ff page args) = Inr data"
  shows "(QueryAsArray e ff page args = Ret (recs, Some (errors_New m))) =
           (recs = [] \<and> jsonparser_GetString e data ''errmsg'' = Inr m)"
  using assms
  by (auto simp: QueryAsArray_def QueryAsJSON_def obind_Ret_iff
           split: sum.splits prod.splits option.splits if_splits)

theorem remote_error_iff_errmsg_string_witness:
  \<open>QueryAsArray
     (service_double ''{"error":true,"errmsg":"401 Unauthorized"}'' (Inr ''401 Unauthorized'')
        ([], NotExist, Some not_found) (Inl not_found))
     client (1 :: 64 word) [Some ''domain="a.com"'']
   = Ret ([], Some (errors_New ''401 Unauthorized''))\<close>
  by (subst remote_error_iff_errmsg_string
        [where data = \<open>''{"error":true,"errmsg":"401 Unauthorized"}''\<close>])
     (simp_all add: service_double_def)

text \<open>
  C4, as the claim states it, fails: the size is read only after the error message and the
  results. The reply \<^verbatim>\<open>{"errmsg":"bad key","size":0,"results":[]}\<close> yields the error
  built from its message, and the reply \<^verbatim>\<open>{"size":0}\<close>, which has no results, yields
  jsonparser's error; neither is the no-data error.
\<close>

theorem size_zero_other_error_counterexample:
  \<open>QueryAsArray
     (service_double ''{"errmsg":"bad key","size":0,"results":[]}'' (Inr ''bad key'')
        (''[]'', Array, None) (Inr 0))
     client (1 :: 64 word) [Some ''domain="a.com"'']
   = Ret ([], Some (errors_New ''bad key''))
   \<and> QueryAsArray
     (service_double ''{"size":0}'' (Inl not_found) ([], NotExist, Some not_found) (Inr 0))
     client (1 :: 64 word) [Some ''domain="a.com"'']
   = Ret ([], Some (LibraryError not_found))\<close>
  by (simp add: QueryAsArray_def QueryAsJSON_def service_double_def)

text \<open>
  C4, amended. For every reply in which jsonparser finds no string under \<^verbatim>\<open>errmsg\<close>
  and reads an array under \<^verbatim>\<open>results\<close> without error, a size below 1 yields the
  no-data error and no records, whatever the array holds.
\<close>

theorem size_below_one_no_data:
  assumes "http_Get e (request_url e ff page args) = Inr data"
    and "jsonparser_GetString e data ''errmsg'' = Inl d"
    and "jsonparser_Get e data ''results'' = (results, Array, None)"
    and "jsonparser_GetInt e data ''size'' = Inr n"
    and "n < 1"
  shows "QueryAsArray e ff page args = Ret ([], Some errFofaReplyNoData)"
  using assms by (simp add: QueryAsArray_def QueryAsJSON_def)

theorem size_below_one_no_data_witness:
  \<open>QueryAsArray
     (service_double ''{"size":0,"results":[["a.com","1.1.1.1"]]}'' (Inl not_found)
        (''[["a.com","1.1.1.1"]]'', Array, None) (Inr 0))
     client (1 :: 64 word) [Some ''domain="a.com"'', Some ''domain,ip'']
   = Ret ([], Some errFofaReplyNoData)\<close>
  by (rule size_below_one_no_data [where n = 0]) (simp_all add: service_double_def)

text \<open>
  C5. The claim asks for a non-nil error whenever the value under \<^verbatim>\<open>results\<close> is not
  an array. The code does not deliver it when the value is present with another type:
  for the reply \<^verbatim>\<open>{"size":1,"results":"none"}\<close> jsonparser returns the string with a
  nil error, so the branch of line 170 calls \<^verbatim>\<open>err.Error()\<close> on a nil error and the
  call stops with a nil dereference instead of returning an error.
\<close>

theorem results_not_array_panics:
  \<open>QueryAsArray
     (service_double ''{"size":1,"results":"none"}'' (Inl not_found) (''none'', String, None)
        (Inr 1))
     client (1 :: 64 word) [Some ''domain="a.com"'']
   = Panic NilDereference\<close>
  by (simp add: QueryAsArray_def QueryAsJSON_def service_double_def)

section \<open>QueryAsArray: the split is not total\<close>

text \<open>
  C9. There are replies that pass the three checks and on which the unguarded slicing
  panics: an empty results array with the default fields (the slice
  \<^verbatim>\<open>results[2:len(results)-2]\<close> of a two-byte array), a row of two columns with the
  default fields (\<^verbatim>\<open>tmp[2]\<close> for \<^verbatim>\<open>ip\<close>), and the one-byte column \<^verbatim>\<open>8\<close>
  under \<^verbatim>\<open>port\<close> (\<^verbatim>\<open>tmp[1][1:0]\<close>).
\<close>

theorem unguarded_slicing_panics:
  \<open>reaches_split
     (service_double ''{"size":1,"results":[]}'' (Inl not_found) (''[]'', Array, None) (Inr 1))
     client (1 :: 64 word) [Some ''domain="a.com"''] ''[]''
   \<and> QueryAsArray
     (service_double ''{"size":1,"results":[]}'' (Inl not_found) (''[]'', Array, None) (Inr 1))
     client (1 :: 64 word) [Some ''domain="a.com"'']
   = Panic SliceBounds
   \<and> reaches_split
     (service_double ''{"size":1,"results":[["a.com","a.com:80"]]}'' (Inl not_found)
        (''[["a.com","a.com:80"]]'', Array, None) (Inr 1))
     client (1 :: 64 word) [Some ''domain="a.com"''] ''[["a.com","a.com:80"]]''
   \<and> QueryAsArray
     (service_double ''{"size":1,"results":[["a.com","a.com:80"]]}'' (Inl not_found)
        (''[["a.com","a.com:80"]]'', Array, None) (Inr 1))
     client (1 :: 64 word) [Some ''domain="a.com"'']
   = Panic IndexOutOfRange
   \<and> reaches_split
     (service_double ''{"size":1,"results":[["a.com",8]]}'' (Inl not_found)
        (''[["a.com",8]]'', Array, None) (Inr 1))
     client (1 :: 64 word) [Some ''domain="a.com"'', Some ''domain,port''] ''[["a.com",8]]''
   \<and> QueryAsArray
     (service_double ''{"size":1,"results":[["a.com",8]]}'' (Inl not_found)
        (''[["a.com",8]]'', Array, None) (Inr 1))
     client (1 :: 64 word) [Some ''domain="a.com"'', Some ''domain,port'']
   = Panic SliceBounds\<close>
  by (simp add: run_defs)

section \<open>QueryAsArray: rows and columns\<close>

text \<open>
  C7. For a reply that reaches the split, whose rows are \<open>rows\<close>: the call returns the
  records \<open>recs\<close> exactly when there is one record per row and, in each row, every
  attribute whose field name is mapped holds the raw text of its column without that
  text's first and last byte, whatever those bytes are, and every other attribute is
  empty. Nothing checks the two bytes removed; the call returns only when every mapped
  column is there and has at least two bytes. In the concrete run the unquoted column
  \<^verbatim>\<open>8080\<close> is stored as \<^verbatim>\<open>08\<close>.
\<close>

theorem strips_first_and_last_byte:
  assumes "reaches_split e ff page args results"
    and "split_rows (build_mapFields args) results = Ret rows"
  shows "(QueryAsArray e ff page args = Ret (recs, None)) =
     (length recs = length rows \<and>
      (\<forall>i<length rows. \<forall>name\<in>set field_names.
         case map_of (build_mapFields args) name of
           None \<Rightarrow> attr name (recs ! i) = []
         | Some a \<Rightarrow>
             a < length (Split (rows ! i) '','') \<and> 2 \<le> length (Split (rows ! i) '','' ! a) \<and>
             attr name (recs ! i) = butlast (tl (Split (rows ! i) '','' ! a))))"
proof -
  let ?mf = "build_mapFields args"
  have "(QueryAsArray e ff page args = Ret (recs, None)) = (parse_rows ?mf rows = Ret recs)"
    by (auto simp: QueryAsArray_rows [OF assms] obind_Ret_iff)
  also have "\<dots> = (length recs = length rows \<and>
      (\<forall>i<length rows. parse_row ?mf (rows ! i) = Ret (recs ! i)))"
    by (auto simp: parse_rows_Ret_iff list_all2_conv_all_nth)
  also have "\<dots> = (length recs = length rows \<and>
      (\<forall>i<length rows. \<forall>name\<in>set field_names.
         field_value ?mf (Split (rows ! i) '','') name = Ret (attr name (recs ! i))))"
    by (simp only: parse_row_attr)
  finally show ?thesis by (simp only: field_value_Ret_iff)
qed

theorem strips_first_and_last_byte_witness:
  \<open>QueryAsArray
     (service_double ''{"size":1,"results":[["a.com",8080]]}'' (Inl not_found)
        (''[["a.com",8080]]'', Array, None) (Inr 1))
     client (1 :: 64 word) [Some ''domain="a.com"'', Some ''domain,port'']
   = Ret ([\<lparr>Domain' = ''a.com'', Host = [], IP = [], Port = ''08'', Title = [], Country = [],
             City = []\<rparr>], None)\<close>
  by (subst strips_first_and_last_byte [where results = \<open>''[["a.com",8080]]''\<close>
        and rows = \<open>[''"a.com",8080'']\<close>])
     (simp_all add: run_defs field_names_def attr_def)



text \<open>
  C6, as the claim states it, fails: a mapped field whose column a row does not have is
  not skipped. For the fields \<^verbatim>\<open>domain,ip\<close> and the reply
  \<^verbatim>\<open>{"size":2,"results":[["a.com","1.1.1.1"],["b.com"]]}\<close> the second row has no
  column 1, and the call stops at \<^verbatim>\<open>tmp[1]\<close> instead of returning two records.
\<close>

theorem short_row_counterexample:
  \<open>QueryAsArray
     (service_double ''{"size":2,"results":[["a.com","1.1.1.1"],["b.com"]]}'' (Inl not_found)
        (''[["a.com","1.1.1.1"],["b.com"]]'', Array, None) (Inr 2))
     client (1 :: 64 word) [Some ''port="80"'', Some ''domain,ip'']
   = Panic IndexOutOfRange\<close>
  by (simp add: run_defs)

text \<open>
  C6, amended. For a reply that reaches the split: in every record the call returns, the
  attribute of a recognised field name that the mapping does not have is left empty; and
  when some row lacks the column of a recognised field name that the mapping has, the
  call returns no records at all: it panics.
\<close>

theorem unmapped_attribute_stays_empty:
  assumes "reaches_split e ff page args results"
  shows "(\<forall>recs. QueryAsArray e ff page args = Ret (recs, None) \<longrightarrow>
            (\<forall>r\<in>set recs. \<forall>name\<in>set field_names.
               map_of (build_mapFields args) name = None \<longrightarrow> attr name r = []))
       \<and> (\<forall>rows. split_rows (build_mapFields args) results = Ret rows \<longrightarrow>
            (\<exists>v\<in>set rows. \<exists>name\<in>set field_names. \<exists>a.
               map_of (build_mapFields args) name = Some a \<and> length (Split v '','') \<le> a) \<longrightarrow>
            (\<exists>p. QueryAsArray e ff page args = Panic p))"
proof (intro conjI allI impI ballI)
  fix recs r name
  assume ret: "QueryAsArray e ff page args = Ret (recs, None)"
    and r: "r \<in> set recs" and name: "name \<in> set field_names"
    and unmapped: "map_of (build_mapFields args) name = None"
  from ret assms obtain rows where "parse_rows (build_mapFields args) rows = Ret recs"
    by (auto simp: QueryAsArray_decode decode_def obind_Ret_iff)
  then have "list_all2 (\<lambda>v r. parse_row (build_mapFields args) v = Ret r) rows recs"
    by (simp add: parse_rows_Ret_iff)
  with r obtain v where "parse_row (build_mapFields args) v = Ret r"
    by (auto simp: list_all2_conv_all_nth in_set_conv_nth)
  from parse_row_unmapped [OF this name unmapped] show "attr name r = []" .
next
  fix rows
  assume rows: "split_rows (build_mapFields args) results = Ret rows"
    and "\<exists>v\<in>set rows. \<exists>name\<in>set field_names. \<exists>a.
           map_of (build_mapFields args) name = Some a \<and> length (Split v '','') \<le> a"
  then obtain v name a where v: "v \<in> set rows" and "name \<in> set field_names"
    and "map_of (build_mapFields args) name = Some a" and "length (Split v '','') \<le> a"
    by blast
  then obtain p where "parse_row (build_mapFields args) v = Panic p"
    using parse_row_short by blast
  with v obtain p' where "parse_rows (build_mapFields args) rows = Panic p'"
    using parse_rows_Panic by blast
  then show "\<exists>p. QueryAsArray e ff page args = Panic p"
    by (simp add: QueryAsArray_rows [OF assms rows])
qed

theorem unmapped_attribute_stays_empty_witness:
  \<open>QueryAsArray
     (service_double ''{"size":1,"results":[["a.com","1.1.1.1"]]}'' (Inl not_found)
        (''[["a.com","1.1.1.1"]]'', Array, None) (Inr 1))
     client (1 :: 64 word) [Some ''port="80"'', Some ''domain,ip'']
   = Ret ([\<lparr>Domain' = ''a.com'', Host = [], IP = ''1.1.1.1'', Port = [], Title = [],
             Country = [], City = []\<rparr>], None)
   \<and> attr ''title'' \<lparr>Domain' = ''a.com'', Host = [], IP = ''1.1.1.1'', Port = [], Title = [],
             Country = [], City = []\<rparr> = []
   \<and> (\<exists>p. QueryAsArray
     (service_double ''{"size":2,"results":[["a.com","1.1.1.1"],["b.com"]]}'' (Inl not_found)
        (''[["a.com","1.1.1.1"],["b.com"]]'', Array, None) (Inr 2))
     client (1 :: 64 word) [Some ''port="80"'', Some ''domain,ip''] = Panic p)\<close>
proof -
  let ?e1 = \<open>service_double ''{"size":1,"results":[["a.com","1.1.1.1"]]}'' (Inl not_found)
        (''[["a.com","1.1.1.1"]]'', Array, None) (Inr 1)\<close>
  let ?e2 = \<open>service_double ''{"size":2,"results":[["a.com","1.1.1.1"],["b.com"]]}''
        (Inl not_found) (''[["a.com","1.1.1.1"],["b.com"]]'', Array, None) (Inr 2)\<close>
  let ?args = \<open>[Some ''port="80"'', Some ''domain,ip'']\<close>
  let ?r = \<open>\<lparr>Domain' = ''a.com'', Host = [], IP = ''1.1.1.1'', Port = [], Title = [],
             Country = [], City = []\<rparr>\<close>
  have reach1: \<open>reaches_split ?e1 client (1 :: 64 word) ?args ''[["a.com","1.1.1.1"]]''\<close>
    by (simp add: run_defs)
  have reach2: \<open>reaches_split ?e2 client (1 :: 64 word) ?args
                  ''[["a.com","1.1.1.1"],["b.com"]]''\<close>
    by (simp add: run_defs)
  have run: "QueryAsArray ?e1 client (1 :: 64 word) ?args = Ret ([?r], None)"
    by (simp add: run_defs)
  have "attr ''title'' ?r = []"
    by (rule unmapped_attribute_stays_empty [OF reach1, THEN conjunct1, rule_format, OF run])
       (simp_all add: field_names_def run_defs)
  moreover have "\<exists>p. QueryAsArray ?e2 client (1 :: 64 word) ?args = Panic p"
    by (rule unmapped_attribute_stays_empty [OF reach2, THEN conjunct2, rule_format,
          where rows = \<open>[''"a.com","1.1.1.1"'', ''"b.com"'']\<close>])
       (simp_all add: field_names_def run_defs)
  ultimately show ?thesis using run by simp
qed

section \<open>QueryAsArray: replies in the wire format\<close>

text \<open>
  C1, as the claim states it, fails: a reply can hold \<open>N\<close> rows of seven quoted string
  columns and not come back as \<open>N\<close> records, one from each row.
  \<^item> A page past the last result, \<^verbatim>\<open>{"size":5,"results":[]}\<close>, holds no row; the call
    does not return zero records, it panics in \<^verbatim>\<open>results[2:len(results)-2]\<close>.
  \<^item> A title with a comma, \<^verbatim>\<open>"Hello, World"\<close>, is cut in two columns: the record has
    the title \<^verbatim>\<open>Hell\<close>, the country \<^verbatim>\<open>World\<close> and the city \<^verbatim>\<open>US\<close>.
  \<^item> Two rows separated by a comma and a space are not cut apart: one record comes back
    for the two rows, its city ending in a quote character.
\<close>

theorem default_reply_counterexample:
  \<open>QueryAsArray
     (service_double ''{"size":5,"results":[]}'' (Inl not_found) (''[]'', Array, None) (Inr 5))
     client (3 :: 64 word) [Some ''port="80"'']
   = Panic SliceBounds
   \<and> QueryAsArray
     (service_double
        ''{"size":1,"results":[["example.com","1.2.3.4:80","1.2.3.4","80","Hello, World","US","NYC"]]}''
        (Inl not_found)
        (''[["example.com","1.2.3.4:80","1.2.3.4","80","Hello, World","US","NYC"]]'', Array, None)
        (Inr 1))
     client (1 :: 64 word) [Some ''domain="example.com"'']
   = Ret ([\<lparr>Domain' = ''example.com'', Host = ''1.2.3.4:80'', IP = ''1.2.3.4'', Port = ''80'',
             Title = ''Hell'', Country = ''World'', City = ''US''\<rparr>], None)
   \<and> QueryAsArray
     (service_double
        ''{"size":2,"results":[["a.com","a.com:80","1.1.1.1","80","A","US","NYC"], ["b.com","b.com:80","2.2.2.2","80","B","DE","Bonn"]]}''
        (Inl not_found)
        (''[["a.com","a.com:80","1.1.1.1","80","A","US","NYC"], ["b.com","b.com:80","2.2.2.2","80","B","DE","Bonn"]]'',
         Array, None)
        (Inr 2))
     client (1 :: 64 word) [Some ''port="80"'']
   = Ret ([\<lparr>Domain' = ''a.com'', Host = ''a.com:80'', IP = ''1.1.1.1'', Port = ''80'',
             Title = ''A'', Country = ''US'', City = ''NYC"''\<rparr>], None)\<close>
  by (simp add: run_defs)

text \<open>
  C1, amended. Take a reply that reaches the split (no string under \<^verbatim>\<open>errmsg\<close>,
  an array under \<^verbatim>\<open>results\<close>, a size of at least 1) with the default fields, whose
  results array is the wire format, without white space, of \<open>N \<ge> 1\<close> rows of seven
  quoted values, no value containing a comma. Then QueryAsArray returns without error
  exactly \<open>N\<close> records, in the order of the rows, the record at each position holding
  the seven values of the row at that position. The concrete run is the example of the
  specification.
\<close>

theorem default_reply_records:
  assumes "reaches_split e ff page args (encode_results rows)"
    and "\<not> (1 < length args \<and> args ! 1 \<noteq> None)"
    and "rows \<noteq> []"
    and "\<forall>row\<in>set rows. length row = 7 \<and> (\<forall>v\<in>set row. CHR '','' \<notin> set v)"
  shows "QueryAsArray e ff page args = Ret (map record_of rows, None)"
proof -
  have mf: "build_mapFields args = default_mapFields"
    using assms(2) by (auto simp: build_mapFields_def)
  have bound: "a < 7" if "map_of default_mapFields name = Some a" for name a
    using that by (auto simp: default_mapFields_eq split: if_splits)
  have "split_rows default_mapFields (encode_results rows) = Ret (map encode_row rows)"
    using assms(3,4) by (intro split_rows_encode_results) (simp_all add: default_mapFields_eq)
  moreover have "parse_rows default_mapFields (map encode_row rows) =
                   Ret (map (expected_record default_mapFields) rows)"
    using assms(4) bound by (intro parse_rows_quoted) auto
  moreover have "map (expected_record default_mapFields) rows = map record_of rows"
    using assms(4) by (simp add: expected_record_default)
  ultimately show ?thesis
    by (simp add: QueryAsArray_decode [OF assms(1)] mf decode_def)
qed

theorem default_reply_records_witness:
  \<open>QueryAsArray
     (service_double
        ''{"size":1,"results":[["example.com","1.2.3.4:80","1.2.3.4","80","Example","US","NYC"]]}''
        (Inl not_found)
        (''[["example.com","1.2.3.4:80","1.2.3.4","80","Example","US","NYC"]]'', Array, None)
        (Inr 1))
     client (1 :: 64 word) [Some ''domain="example.com"'']
   = Ret ([\<lparr>Domain' = ''example.com'', Host = ''1.2.3.4:80'', IP = ''1.2.3.4'', Port = ''80'',
             Title = ''Example'', Country = ''US'', City = ''NYC''\<rparr>], None)\<close>
proof -
  let ?rows = "[[''example.com'', ''1.2.3.4:80'', ''1.2.3.4'', ''80'', ''Example'', ''US'', ''NYC'']]"
  have enc: \<open>encode_results ?rows =
               ''[["example.com","1.2.3.4:80","1.2.3.4","80","Example","US","NYC"]]''\<close>
    by (simp add: encode_results_def encode_row_def quote_def)
  have \<open>QueryAsArray
     (service_double
        ''{"size":1,"results":[["example.com","1.2.3.4:80","1.2.3.4","80","Example","US","NYC"]]}''
        (Inl not_found)
        (''[["example.com","1.2.3.4:80","1.2.3.4","80","Example","US","NYC"]]'', Array, None)
        (Inr 1))
     client (1 :: 64 word) [Some ''domain="example.com"''] = Ret (map record_of ?rows, None)\<close>
    by (rule default_reply_records) (simp_all add: enc reaches_split_def service_double_def)
  then show ?thesis by (simp add: record_of_def)
qed

text \<open>
  C3, as the claim states it, fails: for the same values the two paths can disagree.
  \<^item> The titles \<^verbatim>\<open>a,b\<close> and \<^verbatim>\<open>c\<close>: the one-field path cuts the reply
    \<^verbatim>\<open>["a,b","c"]\<close> at every comma and returns three records, with the titles empty,
    empty and \<^verbatim>\<open>c\<close>; the path for the fields \<^verbatim>\<open>title,domain\<close> returns two, with
    the titles empty and \<^verbatim>\<open>c\<close>.
  \<^item> The titles \<^verbatim>\<open>A\<close> and \<^verbatim>\<open>B\<close>, the second row without its domain: the one-field
    path returns both titles, the path for \<^verbatim>\<open>title,domain\<close> panics and returns none.
\<close>

theorem single_field_counterexample:
  \<open>QueryAsArray
     (service_double ''{"size":2,"results":["a,b","c"]}'' (Inl not_found)
        (''["a,b","c"]'', Array, None) (Inr 2))
     client (1 :: 64 word) [Some ''port="80"'', Some ''title'']
   = Ret (map (\<lambda>t. zero_result\<lparr>Title := t\<rparr>) [[], [], ''c''], None)
   \<and> QueryAsArray
     (service_double ''{"size":2,"results":[["a,b","x.com"],["c","y.com"]]}'' (Inl not_found)
        (''[["a,b","x.com"],["c","y.com"]]'', Array, None) (Inr 2))
     client (1 :: 64 word) [Some ''port="80"'', Some ''title,domain'']
   = Ret ([zero_result, zero_result\<lparr>Title := ''c'', Domain' := ''y.com''\<rparr>], None)
   \<and> QueryAsArray
     (service_double ''{"size":2,"results":["A","B"]}'' (Inl not_found)
        (''["A","B"]'', Array, None) (Inr 2))
     client (1 :: 64 word) [Some ''port="80"'', Some ''title'']
   = Ret (map (\<lambda>t. zero_result\<lparr>Title := t\<rparr>) [''A'', ''B''], None)
   \<and> QueryAsArray
     (service_double ''{"size":2,"results":[["A","x.com"],["B"]]}'' (Inl not_found)
        (''[["A","x.com"],["B"]]'', Array, None) (Inr 2))
     client (1 :: 64 word) [Some ''port="80"'', Some ''title,domain'']
   = Panic IndexOutOfRange\<close>
  by (simp add: run_defs)

text \<open>
  C3, amended. Take a field list with more than one distinct field name, in which the
  recognised name \<open>name\<close> has the column index \<open>k\<close>, and at least one row, every row
  holding one comma-free value per listed field. Let the query for that one field be answered with the values of
  column \<open>k\<close> in the wire format of a one-field reply, and the query for the whole list
  with the rows in the wire format of a reply for several fields, both replies reaching the
  split. Then both calls return records, and row by row the attribute of \<open>name\<close> is the
  same in both: the value of column \<open>k\<close>.
\<close>

theorem single_field_agrees_with_multi:
  assumes "name \<in> set field_names"
    and "reaches_split e1 ff page [q, Some name] (encode_flat (map (\<lambda>row. row ! k) rows))"
    and "reaches_split e2 ff page [q, Some fs] (encode_results rows)"
    and "1 < length (build_mapFields [q, Some fs])"
    and "map_of (build_mapFields [q, Some fs]) name = Some k"
    and "rows \<noteq> []"
    and "\<forall>row\<in>set rows. length row = length (Split fs '','') \<and> (\<forall>v\<in>set row. CHR '','' \<notin> set v)"
  shows "\<exists>recs1 recs2.
           QueryAsArray e1 ff page [q, Some name] = Ret (recs1, None) \<and>
           QueryAsArray e2 ff page [q, Some fs] = Ret (recs2, None) \<and>
           map (attr name) recs1 = map (\<lambda>row. row ! k) rows \<and>
           map (attr name) recs2 = map (\<lambda>row. row ! k) rows"
proof -
  let ?mf1 = "build_mapFields [q, Some name]" and ?mf2 = "build_mapFields [q, Some fs]"
  let ?vals = "map (\<lambda>row. row ! k) rows"
  have mf1: "?mf1 = [(name, 0)]"
    using assms(1) by (rule single_mapFields)
  have mf2: "?mf2 = index_fields [] 0 (Split fs '','')"
    by (simp add: build_mapFields_def bytes_of_def)
  have bound: "a < length (Split fs '','')" if "map_of ?mf2 n = Some a" for n a
    using index_fields_bound [of "[]" 0 "Split fs '',''" n a] that by (simp add: mf2)
  then have k: "k < length (Split fs '','')"
    using assms(5) by blast
  \<comment> \<open>the query for several fields\<close>
  have "split_rows ?mf2 (encode_results rows) = Ret (map encode_row rows)"
    using assms(4,6,7) by (intro split_rows_encode_results) simp_all
  moreover have "parse_rows ?mf2 (map encode_row rows) = Ret (map (expected_record ?mf2) rows)"
  proof (intro parse_rows_quoted ballI conjI allI impI)
    fix row assume row: "row \<in> set rows"
    with assms(7) k show "row \<noteq> []" by auto
    from row assms(7) show "\<And>v. v \<in> set row \<Longrightarrow> CHR '','' \<notin> set v" by auto
    from row assms(7) bound show "\<And>n a. map_of ?mf2 n = Some a \<Longrightarrow> a < length row" by auto
  qed
  ultimately have run2: "QueryAsArray e2 ff page [q, Some fs] =
                           Ret (map (expected_record ?mf2) rows, None)"
    by (simp add: QueryAsArray_decode [OF assms(3)] decode_def)
  have attr2: "map (attr name) (map (expected_record ?mf2) rows) = ?vals"
    using assms(1,5) by (simp add: attr_expected_record cell_def)
  \<comment> \<open>the query for the one field\<close>
  have vals: "\<forall>v\<in>set ?vals. CHR '','' \<notin> set v"
    using assms(7) k by auto
  have singles: "map quote ?vals = map encode_row (map (\<lambda>v. [v]) ?vals)"
    by (simp add: encode_row_single comp_def)
  have "split_rows ?mf1 (encode_flat ?vals) = Ret (map quote ?vals)"
    using assms(6) vals by (intro split_rows_encode_flat) (simp_all add: mf1)
  then have split1: "decode ?mf1 (encode_flat ?vals) =
                       parse_rows ?mf1 (map encode_row (map (\<lambda>v. [v]) ?vals))"
    by (simp only: decode_def obind.simps singles)
  have "parse_rows ?mf1 (map encode_row (map (\<lambda>v. [v]) ?vals)) =
          Ret (map (expected_record ?mf1) (map (\<lambda>v. [v]) ?vals))"
    using vals by (intro parse_rows_quoted) (auto simp: mf1 split: if_splits)
  then have run1: "QueryAsArray e1 ff page [q, Some name] =
                     Ret (map (expected_record ?mf1) (map (\<lambda>v. [v]) ?vals), None)"
    by (simp only: QueryAsArray_decode [OF assms(2)] split1 obind.simps)
  have attr1: "map (attr name) (map (expected_record ?mf1) (map (\<lambda>v. [v]) ?vals)) = ?vals"
    using assms(1) by (simp add: attr_expected_record cell_def mf1 comp_def)
  from run1 run2 attr1 attr2 show ?thesis by blast
qed

theorem single_field_agrees_with_multi_witness:
  \<open>\<exists>recs1 recs2.
     QueryAsArray
       (service_double ''{"size":2,"results":["1.1.1.1","2.2.2.2"]}'' (Inl not_found)
          (''["1.1.1.1","2.2.2.2"]'', Array, None) (Inr 2))
       client (1 :: 64 word) [Some ''port="80"'', Some ''ip''] = Ret (recs1, None) \<and>
     QueryAsArray
       (service_double ''{"size":2,"results":[["a.com","1.1.1.1"],["b.com","2.2.2.2"]]}''
          (Inl not_found) (''[["a.com","1.1.1.1"],["b.com","2.2.2.2"]]'', Array, None) (Inr 2))
       client (1 :: 64 word) [Some ''port="80"'', Some ''domain,ip''] = Ret (recs2, None) \<and>
     map (attr ''ip'') recs1 = [''1.1.1.1'', ''2.2.2.2''] \<and>
     map (attr ''ip'') recs2 = [''1.1.1.1'', ''2.2.2.2'']\<close>
proof -
  let ?rows = "[[''a.com'', ''1.1.1.1''], [''b.com'', ''2.2.2.2'']]"
  have flat: \<open>encode_flat (map (\<lambda>row. row ! 1) ?rows) = ''["1.1.1.1","2.2.2.2"]''\<close>
    by (simp add: encode_flat_def quote_def)
  have nested: \<open>encode_results ?rows = ''[["a.com","1.1.1.1"],["b.com","2.2.2.2"]]''\<close>
    by (simp add: encode_results_def encode_row_def quote_def)
  have mf: \<open>build_mapFields [Some ''port="80"'', Some ''domain,ip''] = [(''domain'', 0), (''ip'', 1)]\<close>
    by (simp add: run_defs)
  have fs: "Split ''domain,ip'' '','' = [''domain'', ''ip'']"
    by (simp add: Split.simps)
  have name: "''ip'' \<in> set field_names"
    by (simp add: field_names_def)
  have reach1: \<open>reaches_split
       (service_double ''{"size":2,"results":["1.1.1.1","2.2.2.2"]}'' (Inl not_found)
          (''["1.1.1.1","2.2.2.2"]'', Array, None) (Inr 2))
       client (1 :: 64 word) [Some ''port="80"'', Some ''ip'']
       (encode_flat (map (\<lambda>row. row ! 1) ?rows))\<close>
    unfolding flat by (simp add: reaches_split_def service_double_def)
  have reach2: \<open>reaches_split
       (service_double ''{"size":2,"results":[["a.com","1.1.1.1"],["b.com","2.2.2.2"]]}''
          (Inl not_found) (''[["a.com","1.1.1.1"],["b.com","2.2.2.2"]]'', Array, None) (Inr 2))
       client (1 :: 64 word) [Some ''port="80"'', Some ''domain,ip'']
       (encode_results ?rows)\<close>
    unfolding nested by (simp add: reaches_split_def service_double_def)
  have several: \<open>1 < length (build_mapFields [Some ''port="80"'', Some ''domain,ip''])\<close>
    and index: \<open>map_of (build_mapFields [Some ''port="80"'', Some ''domain,ip'']) ''ip'' = Some 1\<close>
    by (simp_all add: mf)
  have rows: "?rows \<noteq> []"
    and cols: "\<forall>row\<in>set ?rows. length row = length (Split ''domain,ip'' '','') \<and>
                 (\<forall>v\<in>set row. CHR '','' \<notin> set v)"
    by (simp_all add: fs)
  from single_field_agrees_with_multi [OF name reach1 reach2 several index rows cols]
  show ?thesis by simp
qed

end
